theory Spec2Isabelle
  imports Complex_Main
begin

section \<open>JavaScript values used by the console command definitions\<close>

text \<open>
  The file \<^verbatim>\<open>console_commands_definition.ts\<close> works on strings, booleans, numbers and
  arrays of argument values. Strings are modelled as \<^typ>\<open>string\<close>; a \<^typ>\<open>char\<close> stands
  for a UTF-16 code unit below 256, which covers every character the validators
  distinguish (digits, signs, letters of the numeric grammar and the Latin-1 white space).
\<close>

subsection \<open>White space and \<^verbatim>\<open>String.prototype.trim\<close>\<close>

definition isStrWhiteSpaceChar :: "char \<Rightarrow> bool" where
  \<comment> \<open>TAB, LF, VT, FF, CR, SP and NBSP: the WhiteSpace and LineTerminator code units below 256.\<close>
  "isStrWhiteSpaceChar c = (of_char c \<in> {9, 10, 11, 12, 13, 32, 160 :: int})"

definition trim :: "string \<Rightarrow> string" where
  "trim s = rev (dropWhile isStrWhiteSpaceChar (rev (dropWhile isStrWhiteSpaceChar s)))"

subsection \<open>Number values\<close>

text \<open>
  A Number is NaN, an infinity or a finite double, kept as the rational it denotes
  (the two zeros are not told apart: no comparison in the source depends on the sign of zero).
\<close>

datatype js_number = NaN | Infinity bool | Finite rat

definition pow2 :: "int \<Rightarrow> rat" where
  "pow2 e = (if 0 \<le> e then 2 ^ nat e else 1 / 2 ^ nat (- e))"

function bitlength :: "int \<Rightarrow> int" where
  "bitlength n = (if n \<le> 0 then 0 else 1 + bitlength (n div 2))"
  by pat_completeness auto
termination
  by (relation "measure nat") auto

declare bitlength.simps [simp del]

definition floor_log2 :: "rat \<Rightarrow> int" where
  \<comment> \<open>for \<open>0 < a\<close>: the \<open>e\<close> with \<open>2 ^ e \<le> a < 2 ^ (e + 1)\<close>\<close>
  "floor_log2 a =
     (let (n, d) = quotient_of a;
          k = bitlength n - bitlength d
      in if pow2 k \<le> a then k else k - 1)"

definition round_half_even :: "rat \<Rightarrow> int" where
  "round_half_even x =
     (let f = \<lfloor>x\<rfloor>; r = x - of_int f
      in if r < 1 / 2 then f
         else if 1 / 2 < r then f + 1
         else if even f then f else f + 1)"

definition toDouble :: "rat \<Rightarrow> js_number" where
  \<comment> \<open>the Number value for a mathematical value: IEEE 754 binary64, round to nearest, ties to even\<close>
  "toDouble x =
     (if x = 0 then Finite 0
      else let a = \<bar>x\<bar>;
               e = max (floor_log2 a) (- 1022);
               q = pow2 (e - 52);
               v = of_int (round_half_even (a / q)) * q
           in if 2 ^ 1024 \<le> v then Infinity (x < 0)
              else Finite (if x < 0 then - v else v))"

definition Number_isSafeInteger :: "js_number \<Rightarrow> bool" where
  "Number_isSafeInteger n =
     (case n of
        Finite v \<Rightarrow> v = of_int \<lfloor>v\<rfloor> \<and> \<bar>v\<bar> \<le> 2 ^ 53 - 1
      | _ \<Rightarrow> False)"

definition gt_zero :: "js_number \<Rightarrow> bool" where
  \<comment> \<open>the comparison \<^verbatim>\<open>n > 0\<close>\<close>
  "gt_zero n = (case n of NaN \<Rightarrow> False | Infinity neg \<Rightarrow> \<not> neg | Finite v \<Rightarrow> 0 < v)"

subsection \<open>StringToNumber\<close>

definition isDecimalDigit :: "char \<Rightarrow> bool" where
  "isDecimalDigit c = (48 \<le> (of_char c :: int) \<and> (of_char c :: int) \<le> 57)"

definition digitValue :: "char \<Rightarrow> int option" where
  \<comment> \<open>the value of a digit of any radix up to 16\<close>
  "digitValue c =
     (let k = (of_char c :: int)
      in if 48 \<le> k \<and> k \<le> 57 then Some (k - 48)
         else if 97 \<le> k \<and> k \<le> 102 then Some (k - 87)
         else if 65 \<le> k \<and> k \<le> 70 then Some (k - 55)
         else None)"

definition isDigitOfRadix :: "int \<Rightarrow> char \<Rightarrow> bool" where
  "isDigitOfRadix radix c = (case digitValue c of None \<Rightarrow> False | Some v \<Rightarrow> v < radix)"

definition digitsValue :: "int \<Rightarrow> string \<Rightarrow> int" where
  "digitsValue radix ds =
     foldl (\<lambda>acc c. radix * acc + (case digitValue c of None \<Rightarrow> 0 | Some v \<Rightarrow> v)) 0 ds"

definition pow10 :: "int \<Rightarrow> rat" where
  "pow10 e = (if 0 \<le> e then 10 ^ nat e else 1 / 10 ^ nat (- e))"

definition parseExponentPart :: "string \<Rightarrow> int option" where
  \<comment> \<open>ExponentPart, or nothing: \<open>None\<close> when the text is neither\<close>
  "parseExponentPart s =
     (case s of
        [] \<Rightarrow> Some 0
      | c # r \<Rightarrow>
          if c = CHR ''e'' \<or> c = CHR ''E'' then
            (let (neg, ds) =
                   (case r of
                      [] \<Rightarrow> (False, r)
                    | d # r' \<Rightarrow>
                        if d = CHR ''-'' then (True, r')
                        else if d = CHR ''+'' then (False, r')
                        else (False, r))
             in if ds \<noteq> [] \<and> list_all isDecimalDigit ds
                then Some (if neg then - digitsValue 10 ds else digitsValue 10 ds)
                else None)
          else None)"

definition parseStrUnsignedDecimalLiteral :: "string \<Rightarrow> rat option" where
  \<comment> \<open>digits, an optional fraction and an optional exponent; \<open>Infinity\<close> is handled by the caller\<close>
  "parseStrUnsignedDecimalLiteral s =
     (let ip = takeWhile isDecimalDigit s;
          r1 = dropWhile isDecimalDigit s;
          (fp, r2) =
            (case r1 of
               [] \<Rightarrow> ([], r1)
             | c # r \<Rightarrow>
                 if c = CHR ''.'' then (takeWhile isDecimalDigit r, dropWhile isDecimalDigit r)
                 else ([], r1))
      in if ip = [] \<and> fp = [] then None
         else
           (case parseExponentPart r2 of
              None \<Rightarrow> None
            | Some e \<Rightarrow>
                Some ((of_int (digitsValue 10 ip)
                        + of_int (digitsValue 10 fp) * pow10 (- int (length fp)))
                      * pow10 e)))"

definition parseNonDecimalIntegerLiteral :: "string \<Rightarrow> rat option" where
  "parseNonDecimalIntegerLiteral s =
     (case s of
        z # p # ds \<Rightarrow>
          if z = CHR ''0'' then
            (let radix =
                   (if p = CHR ''x'' \<or> p = CHR ''X'' then 16
                    else if p = CHR ''o'' \<or> p = CHR ''O'' then 8
                    else if p = CHR ''b'' \<or> p = CHR ''B'' then 2
                    else (0 :: int))
             in if radix \<noteq> 0 \<and> ds \<noteq> [] \<and> list_all (isDigitOfRadix radix) ds
                then Some (of_int (digitsValue radix ds))
                else None)
          else None
      | _ \<Rightarrow> None)"

definition StringToNumber :: "string \<Rightarrow> js_number" where
  "StringToNumber str =
     (let s = trim str
      in if s = [] then Finite 0
         else
           (case parseNonDecimalIntegerLiteral s of
              Some v \<Rightarrow> toDouble v
            | None \<Rightarrow>
                (let (neg, u) =
                       (case s of
                          [] \<Rightarrow> (False, s)
                        | c # r \<Rightarrow>
                            if c = CHR ''-'' then (True, r)
                            else if c = CHR ''+'' then (False, r)
                            else (False, s))
                 in if u = ''Infinity'' then Infinity neg
                    else
                      (case parseStrUnsignedDecimalLiteral u of
                         None \<Rightarrow> NaN
                       | Some v \<Rightarrow> toDouble (if neg then - v else v)))))"

subsection \<open>Argument data\<close>

text \<open>
  \<^verbatim>\<open>ParsedArgData\<close> is the array of values given to one argument of a console command:
  a string for \<^verbatim>\<open>--pid 123\<close>, the boolean \<^verbatim>\<open>true\<close> for a bare \<^verbatim>\<open>--pid\<close>.
\<close>

datatype arg_value = StrVal string | BoolVal bool

type_synonym ParsedArgData = "arg_value list"

definition String_of_value :: "arg_value \<Rightarrow> string" where
  "String_of_value v =
     (case v of StrVal s \<Rightarrow> s | BoolVal b \<Rightarrow> (if b then ''true'' else ''false''))"

fun join_comma :: "string list \<Rightarrow> string" where
  "join_comma [] = []"
| "join_comma [s] = s"
| "join_comma (s # t # r) = s @ '','' @ join_comma (t # r)"

definition String_of_array :: "ParsedArgData \<Rightarrow> string" where
  \<comment> \<open>\<^verbatim>\<open>String(argData)\<close>: the elements joined by commas\<close>
  "String_of_array argData = join_comma (map String_of_value argData)"

definition Number_of_array :: "ParsedArgData \<Rightarrow> js_number" where
  \<comment> \<open>\<^verbatim>\<open>Number(argData)\<close>: the array is first converted to its string\<close>
  "Number_of_array argData = StringToNumber (String_of_array argData)"

section \<open>Argument validators\<close>

text \<open>
  A validator returns \<^verbatim>\<open>true\<close> or the message to show. \<^verbatim>\<open>i18n.translate\<close> is taken at
  the default locale, where it returns the \<^verbatim>\<open>defaultMessage\<close>.
\<close>

datatype validate_result = IsTrue | Message string

definition i18n_translate :: "string \<Rightarrow> string \<Rightarrow> string" where
  "i18n_translate msgId defaultMessage = defaultMessage"

definition emptyArgumentValidator :: "ParsedArgData \<Rightarrow> validate_result" where
  "emptyArgumentValidator argData =
     (if 0 < length argData
         \<and> (case argData of
               StrVal s # _ \<Rightarrow> 0 < length (trim s)
             | _ \<Rightarrow> False)
      then IsTrue
      else Message (i18n_translate
             ''xpack.securitySolution.endpointConsoleCommands.emptyArgumentMessage''
             ''Argument cannot be empty''))"

definition pidValidator :: "ParsedArgData \<Rightarrow> validate_result" where
  "pidValidator argData =
     (let emptyResult = emptyArgumentValidator argData
      in if emptyResult \<noteq> IsTrue then emptyResult
         else if Number_isSafeInteger (Number_of_array argData)
                 \<and> gt_zero (Number_of_array argData)
         then IsTrue
         else Message (i18n_translate
                ''xpack.securitySolution.endpointConsoleCommands.invalidPidMessage''
                ''Argument must be a positive number representing the PID of a process''))"

section \<open>Capabilities and privileges of the response actions\<close>

text \<open>
  \<^verbatim>\<open>EndpointPrivileges\<close> is declared outside this file; the record has the flags that
  \<^verbatim>\<open>commandToCapabilitiesPrivilegesMap\<close> reads. An endpoint capability is a string tag.
\<close>

record EndpointPrivileges =
  canIsolateHost :: bool
  canUnIsolateHost :: bool
  canKillProcess :: bool
  canSuspendProcess :: bool
  canGetRunningProcesses :: bool
  canWriteFileOperations :: bool
  canWriteExecuteOperations :: bool

record CapabilityAndPrivilege =
  capability :: string
  privilege :: "EndpointPrivileges \<Rightarrow> bool"

definition commandToCapabilitiesPrivilegesMap :: "string \<rightharpoonup> CapabilityAndPrivilege" where
  "commandToCapabilitiesPrivilegesMap =
     map_of
       [(''isolate'', \<lparr>capability = ''isolation'', privilege = canIsolateHost\<rparr>),
        (''release'', \<lparr>capability = ''isolation'', privilege = canUnIsolateHost\<rparr>),
        (''kill-process'', \<lparr>capability = ''kill_process'', privilege = canKillProcess\<rparr>),
        (''suspend-process'',
           \<lparr>capability = ''suspend_process'', privilege = canSuspendProcess\<rparr>),
        (''processes'',
           \<lparr>capability = ''running_processes'', privilege = canGetRunningProcesses\<rparr>),
        (''get-file'', \<lparr>capability = ''get_file'', privilege = canWriteFileOperations\<rparr>),
        (''execute'', \<lparr>capability = ''execute'', privilege = canWriteExecuteOperations\<rparr>)]"

definition getRbacControl :: "string \<Rightarrow> EndpointPrivileges \<Rightarrow> bool" where
  \<comment> \<open>\<^verbatim>\<open>Boolean(map.get(commandName)?.privilege(privileges))\<close>: false for a name not in the map\<close>
  "getRbacControl commandName privs =
     (case commandToCapabilitiesPrivilegesMap commandName of
        None \<Rightarrow> False
      | Some entry \<Rightarrow> privilege entry privs)"

section \<open>Command definitions\<close>

datatype RenderComponent =
    IsolateActionResult
  | ReleaseActionResult
  | KillProcessActionResult
  | SuspendProcessActionResult
  | EndpointStatusActionResult
  | GetProcessesActionResult
  | GetFileActionResult
  | ExecuteActionResult

text \<open>
  The \<^verbatim>\<open>about\<close> of a command is a plain text or what \<^verbatim>\<open>getCommandAboutInfo\<close> renders
  from a text and the \<^verbatim>\<open>isSupported\<close> flag; that component lives in another module, and
  its result is represented by the two properties it is given.
\<close>

datatype about_node = AboutText string | CommandAboutInfo (aboutInfo: string) (isSupported: bool)

definition getCommandAboutInfo :: "string \<Rightarrow> bool \<Rightarrow> about_node" where
  "getCommandAboutInfo info supported = CommandAboutInfo info supported"

text \<open>
  The objects below hold functions, the capability array and the privileges object. Their
  records are generic in what stands for these: the values themselves (\<open>CommandDefinition\<close>
  and the like), or references into a store where sharing and identity matter
  (\<open>CommandDefinitionObj\<close> further down).

  The definition of one argument. Its \<^verbatim>\<open>about\<close> and \<^verbatim>\<open>validate\<close> are the fields
  \<open>argAbout\<close> and \<open>argValidate\<close>, apart from the fields of the same names of a command.
  A field the object literal leaves out is \<open>None\<close>.
\<close>

record 'f CommandArgDefinition_of =
  required :: bool
  allowMultiples :: bool
  exclusiveOr :: "bool option"
  argAbout :: string
  mustHaveValue :: "string option"
  argValidate :: "'f option"

type_synonym CommandArgDefinition = "(ParsedArgData \<Rightarrow> validate_result) CommandArgDefinition_of"

text \<open>
  The \<^verbatim>\<open>meta\<close> object of a command: \<^verbatim>\<open>status\<close> stores only the endpoint id, every other
  command also the capabilities and the privileges it was built from.
\<close>

record ('c, 'p) CommandMeta_of =
  endpointId :: string
  capabilities :: "'c option"
  privileges :: "'p option"

type_synonym CommandMeta = "(string list, EndpointPrivileges) CommandMeta_of"

text \<open>
  The \<^verbatim>\<open>validate\<close> of a command is a reference to a function on the \<^verbatim>\<open>Command\<close>, which
  holds the definition again; the only function the source stores there is
  \<^verbatim>\<open>capabilitiesAndPrivilegesValidator\<close>, named by a constructor.
\<close>

datatype command_validator = CapabilitiesAndPrivilegesValidator

record ('c, 'p, 'f) CommandDefinition_of =
  name :: string
  about :: about_node
  RenderComponent :: RenderComponent
  meta :: "('c, 'p) CommandMeta_of"
  exampleUsage :: "string option"
  exampleInstruction :: "string option"
  validate :: "command_validator option"
  mustHaveArgs :: "bool option"
  args :: "(string \<times> 'f CommandArgDefinition_of) list option"
  helpGroupLabel :: string
  helpGroupPosition :: int
  helpCommandPosition :: int
  helpDisabled :: "bool option"
  helpHidden :: "bool option"

type_synonym CommandDefinition =
  "(string list, EndpointPrivileges, ParsedArgData \<Rightarrow> validate_result) CommandDefinition_of"

text \<open>
  A \<^verbatim>\<open>Command\<close> is what the console hands to a command's \<^verbatim>\<open>validate\<close>: the text that
  was entered, its parsed arguments (the field \<^verbatim>\<open>args\<close> of the source, \<open>parsedArgs\<close> here)
  and the definition of the command.
\<close>

record 'd Command_of =
  input :: string
  parsedArgs :: "string \<rightharpoonup> ParsedArgData"
  commandDefinition :: 'd

type_synonym Command = "CommandDefinition Command_of"

subsection \<open>The capability and privilege check\<close>

text \<open>
  The two messages come from the module \<^verbatim>\<open>common/translations\<close>; they are parameters here.
  Reading a property of \<^verbatim>\<open>undefined\<close> throws a TypeError: this happens when the check runs on
  a command of the map whose \<^verbatim>\<open>meta\<close> lacks the capabilities or the privileges.
\<close>

record translation_texts =
  UPGRADE_ENDPOINT_FOR_RESPONDER :: string
  INSUFFICIENT_PRIVILEGES_FOR_COMMAND :: string

datatype error = TypeError

definition capabilitiesAndPrivilegesValidator ::
  "translation_texts \<Rightarrow> Command \<Rightarrow> error + validate_result" where
  "capabilitiesAndPrivilegesValidator tr command =
     (let privs = privileges (meta (commandDefinition command));
          endpointCapabilities = capabilities (meta (commandDefinition command));
          commandName = name (commandDefinition command);
          responderCapability =
            map_option capability (commandToCapabilitiesPrivilegesMap commandName);
          errorMessage0 = [];
          errorMessage1 =
            (if responderCapability = None \<or> responderCapability = Some []
             then errorMessage0 @ UPGRADE_ENDPOINT_FOR_RESPONDER tr
             else errorMessage0);
          afterCapability =
            (case responderCapability of
               None \<Rightarrow> Inr errorMessage1
             | Some rc \<Rightarrow>
                 if rc = [] then Inr errorMessage1
                 else
                   (case endpointCapabilities of
                      None \<Rightarrow> Inl TypeError
                    | Some caps \<Rightarrow>
                        Inr (if rc \<notin> set caps
                             then errorMessage1 @ UPGRADE_ENDPOINT_FOR_RESPONDER tr
                             else errorMessage1)));
          rbacControl =
            (case privs of
               Some p \<Rightarrow> Inr (getRbacControl commandName p)
             | None \<Rightarrow>
                 (case commandToCapabilitiesPrivilegesMap commandName of
                    None \<Rightarrow> Inr False
                  | Some entry \<Rightarrow> Inl TypeError))
      in case afterCapability of
           Inl e \<Rightarrow> Inl e
         | Inr errorMessage2 \<Rightarrow>
             (case rbacControl of
                Inl e \<Rightarrow> Inl e
              | Inr allowed \<Rightarrow>
                  (let errorMessage3 =
                         (if allowed \<noteq> True
                          then errorMessage2 @ INSUFFICIENT_PRIVILEGES_FOR_COMMAND tr
                          else errorMessage2)
                   in if 0 < length errorMessage3 then Inr (Message errorMessage3)
                      else Inr IsTrue)))"

subsection \<open>The list of console commands\<close>

definition HELP_GROUPS_responseActions_position :: int where
  "HELP_GROUPS_responseActions_position = 0"

definition HELP_GROUPS_responseActions_label :: string where
  "HELP_GROUPS_responseActions_label =
     i18n_translate ''xpack.securitySolution.endpointConsoleCommands.groups.responseActions''
       ''Response actions''"

definition ENTER_PID_OR_ENTITY_ID_INSTRUCTION :: string where
  "ENTER_PID_OR_ENTITY_ID_INSTRUCTION =
     i18n_translate
       ''xpack.securitySolution.endpointResponseActionsConsoleCommands.enterPidOrEntityId''
       ''Enter a pid or an entity id to execute''"

definition ENTER_OR_ADD_COMMENT_ARG_INSTRUCTION :: string where
  "ENTER_OR_ADD_COMMENT_ARG_INSTRUCTION =
     i18n_translate
       ''xpack.securitySolution.endpointResponseActionsConsoleCommands.enterOrAddOptionalComment''
       ''Hit enter to execute or add an optional comment''"

definition COMMENT_ARG_ABOUT :: string where
  "COMMENT_ARG_ABOUT =
     i18n_translate ''xpack.securitySolution.endpointConsoleCommands.suspendProcess.commandArgAbout''
       ''A comment to go along with the action''"

text \<open>
  \<^verbatim>\<open>ExperimentalFeaturesService.get()\<close> is read twice at the start of
  \<^verbatim>\<open>getEndpointConsoleCommands\<close>; the flags it returns are an argument of the model.
  The service knows many more flags: they are the extension of the record.
\<close>

record ExperimentalFeatures =
  responseActionGetFileEnabled :: bool
  responseActionExecuteEnabled :: bool

definition doesEndpointSupportCommand :: "string list \<Rightarrow> string \<Rightarrow> bool" where
  \<comment> \<open>the closure of \<^verbatim>\<open>getEndpointConsoleCommands\<close>, with the \<^verbatim>\<open>endpointCapabilities\<close> it captures\<close>
  "doesEndpointSupportCommand endpointCapabilities commandName =
     (case map_option capability (commandToCapabilitiesPrivilegesMap commandName) of
        None \<Rightarrow> False
      | Some responderCapability \<Rightarrow>
          if responderCapability = [] then False
          else responderCapability \<in> set endpointCapabilities)"

text \<open>
  Each element of the array literal of \<^verbatim>\<open>getEndpointConsoleCommands\<close> is a definition of
  its own below, in the order of the source, with the variables it reads as arguments.
\<close>

definition commentArg :: CommandArgDefinition where
  "commentArg =
     \<lparr>required = False, allowMultiples = False, exclusiveOr = None,
      argAbout = COMMENT_ARG_ABOUT, mustHaveValue = None, argValidate = None\<rparr>"

definition gatedMeta :: "string \<Rightarrow> string list \<Rightarrow> EndpointPrivileges \<Rightarrow> CommandMeta" where
  \<comment> \<open>the object \<^verbatim>\<open>{ endpointId, capabilities, privileges }\<close>\<close>
  "gatedMeta endpointAgentId endpointCapabilities endpointPrivileges =
     \<lparr>endpointId = endpointAgentId, capabilities = Some endpointCapabilities,
      privileges = Some endpointPrivileges\<rparr>"

definition isolateCommand :: "string \<Rightarrow> string list \<Rightarrow> EndpointPrivileges \<Rightarrow> CommandDefinition" where
  "isolateCommand endpointAgentId endpointCapabilities endpointPrivileges =
     \<lparr>name = ''isolate'',
      about = getCommandAboutInfo
        (i18n_translate ''xpack.securitySolution.endpointConsoleCommands.isolate.about''
           ''Isolate the host'')
        (doesEndpointSupportCommand endpointCapabilities ''isolate''),
      RenderComponent = IsolateActionResult,
      meta = gatedMeta endpointAgentId endpointCapabilities endpointPrivileges,
      exampleUsage = Some ''isolate --comment \"isolate this host\"'',
      exampleInstruction = Some ENTER_OR_ADD_COMMENT_ARG_INSTRUCTION,
      validate = Some CapabilitiesAndPrivilegesValidator,
      mustHaveArgs = None,
      args = Some [(''comment'', commentArg)],
      helpGroupLabel = HELP_GROUPS_responseActions_label,
      helpGroupPosition = HELP_GROUPS_responseActions_position,
      helpCommandPosition = 0,
      helpDisabled = Some (doesEndpointSupportCommand endpointCapabilities ''isolate'' = False),
      helpHidden = Some (\<not> getRbacControl ''isolate'' endpointPrivileges)\<rparr>"

definition releaseCommand :: "string \<Rightarrow> string list \<Rightarrow> EndpointPrivileges \<Rightarrow> CommandDefinition" where
  "releaseCommand endpointAgentId endpointCapabilities endpointPrivileges =
     \<lparr>name = ''release'',
      about = getCommandAboutInfo
        (i18n_translate ''xpack.securitySolution.endpointConsoleCommands.release.about''
           ''Release the host'')
        (doesEndpointSupportCommand endpointCapabilities ''release''),
      RenderComponent = ReleaseActionResult,
      meta = gatedMeta endpointAgentId endpointCapabilities endpointPrivileges,
      exampleUsage = Some ''release --comment \"release this host\"'',
      exampleInstruction = Some ENTER_OR_ADD_COMMENT_ARG_INSTRUCTION,
      validate = Some CapabilitiesAndPrivilegesValidator,
      mustHaveArgs = None,
      args = Some [(''comment'', commentArg)],
      helpGroupLabel = HELP_GROUPS_responseActions_label,
      helpGroupPosition = HELP_GROUPS_responseActions_position,
      helpCommandPosition = 1,
      helpDisabled = Some (doesEndpointSupportCommand endpointCapabilities ''release'' = False),
      helpHidden = Some (\<not> getRbacControl ''release'' endpointPrivileges)\<rparr>"

definition killProcessCommand :: "string \<Rightarrow> string list \<Rightarrow> EndpointPrivileges \<Rightarrow> CommandDefinition" where
  "killProcessCommand endpointAgentId endpointCapabilities endpointPrivileges =
     \<lparr>name = ''kill-process'',
      about = getCommandAboutInfo
        (i18n_translate ''xpack.securitySolution.endpointConsoleCommands.killProcess.about''
           ''Kill/terminate a process'')
        (doesEndpointSupportCommand endpointCapabilities ''kill-process''),
      RenderComponent = KillProcessActionResult,
      meta = gatedMeta endpointAgentId endpointCapabilities endpointPrivileges,
      exampleUsage = Some ''kill-process --pid 123 --comment \"kill this process\"'',
      exampleInstruction = Some ENTER_PID_OR_ENTITY_ID_INSTRUCTION,
      validate = Some CapabilitiesAndPrivilegesValidator,
      mustHaveArgs = Some True,
      args = Some
        [(''comment'', commentArg),
         (''pid'',
            \<lparr>required = False, allowMultiples = False, exclusiveOr = Some True,
             argAbout = i18n_translate
               ''xpack.securitySolution.endpointConsoleCommands.pid.arg.comment''
               ''A PID representing the process to kill'',
             mustHaveValue = None, argValidate = Some pidValidator\<rparr>),
         (''entityId'',
            \<lparr>required = False, allowMultiples = False, exclusiveOr = Some True,
             argAbout = i18n_translate
               ''xpack.securitySolution.endpointConsoleCommands.entityId.arg.comment''
               ''An entity id representing the process to kill'',
             mustHaveValue = None, argValidate = Some emptyArgumentValidator\<rparr>)],
      helpGroupLabel = HELP_GROUPS_responseActions_label,
      helpGroupPosition = HELP_GROUPS_responseActions_position,
      helpCommandPosition = 4,
      helpDisabled =
        Some (doesEndpointSupportCommand endpointCapabilities ''kill-process'' = False),
      helpHidden = Some (\<not> getRbacControl ''kill-process'' endpointPrivileges)\<rparr>"

definition suspendProcessCommand :: "string \<Rightarrow> string list \<Rightarrow> EndpointPrivileges \<Rightarrow> CommandDefinition" where
  "suspendProcessCommand endpointAgentId endpointCapabilities endpointPrivileges =
     \<lparr>name = ''suspend-process'',
      about = getCommandAboutInfo
        (i18n_translate ''xpack.securitySolution.endpointConsoleCommands.suspendProcess.about''
           ''Temporarily suspend a process'')
        (doesEndpointSupportCommand endpointCapabilities ''suspend-process''),
      RenderComponent = SuspendProcessActionResult,
      meta = gatedMeta endpointAgentId endpointCapabilities endpointPrivileges,
      exampleUsage = Some ''suspend-process --pid 123 --comment \"suspend this process\"'',
      exampleInstruction = Some ENTER_PID_OR_ENTITY_ID_INSTRUCTION,
      validate = Some CapabilitiesAndPrivilegesValidator,
      mustHaveArgs = Some True,
      args = Some
        [(''comment'', commentArg),
         (''pid'',
            \<lparr>required = False, allowMultiples = False, exclusiveOr = Some True,
             argAbout = i18n_translate
               ''xpack.securitySolution.endpointConsoleCommands.suspendProcess.pid.arg.comment''
               ''A PID representing the process to suspend'',
             mustHaveValue = None, argValidate = Some pidValidator\<rparr>),
         (''entityId'',
            \<lparr>required = False, allowMultiples = False, exclusiveOr = Some True,
             argAbout = i18n_translate
               ''xpack.securitySolution.endpointConsoleCommands.suspendProcess.entityId.arg.comment''
               ''An entity id representing the process to suspend'',
             mustHaveValue = None, argValidate = Some emptyArgumentValidator\<rparr>)],
      helpGroupLabel = HELP_GROUPS_responseActions_label,
      helpGroupPosition = HELP_GROUPS_responseActions_position,
      helpCommandPosition = 5,
      helpDisabled =
        Some (doesEndpointSupportCommand endpointCapabilities ''suspend-process'' = False),
      helpHidden = Some (\<not> getRbacControl ''suspend-process'' endpointPrivileges)\<rparr>"

definition statusCommand :: "string \<Rightarrow> CommandDefinition" where
  "statusCommand endpointAgentId =
     \<lparr>name = ''status'',
      about = AboutText
        (i18n_translate ''xpack.securitySolution.endpointConsoleCommands.status.about''
           ''Show host status information''),
      RenderComponent = EndpointStatusActionResult,
      meta = \<lparr>endpointId = endpointAgentId, capabilities = None, privileges = None\<rparr>,
      exampleUsage = None,
      exampleInstruction = None,
      validate = None,
      mustHaveArgs = None,
      args = None,
      helpGroupLabel = HELP_GROUPS_responseActions_label,
      helpGroupPosition = HELP_GROUPS_responseActions_position,
      helpCommandPosition = 2,
      helpDisabled = None,
      helpHidden = None\<rparr>"

definition processesCommand :: "string \<Rightarrow> string list \<Rightarrow> EndpointPrivileges \<Rightarrow> CommandDefinition" where
  "processesCommand endpointAgentId endpointCapabilities endpointPrivileges =
     \<lparr>name = ''processes'',
      about = getCommandAboutInfo
        (i18n_translate ''xpack.securitySolution.endpointConsoleCommands.processes.about''
           ''Show all running processes'')
        (doesEndpointSupportCommand endpointCapabilities ''processes''),
      RenderComponent = GetProcessesActionResult,
      meta = gatedMeta endpointAgentId endpointCapabilities endpointPrivileges,
      exampleUsage = Some ''processes --comment \"get the processes\"'',
      exampleInstruction = Some ENTER_OR_ADD_COMMENT_ARG_INSTRUCTION,
      validate = Some CapabilitiesAndPrivilegesValidator,
      mustHaveArgs = None,
      args = Some [(''comment'', commentArg)],
      helpGroupLabel = HELP_GROUPS_responseActions_label,
      helpGroupPosition = HELP_GROUPS_responseActions_position,
      helpCommandPosition = 3,
      helpDisabled = Some (doesEndpointSupportCommand endpointCapabilities ''processes'' = False),
      helpHidden = Some (\<not> getRbacControl ''processes'' endpointPrivileges)\<rparr>"

subsection \<open>The timeout of \<^verbatim>\<open>execute\<close>\<close>

text \<open>
  Modelled from the spec: \<^verbatim>\<open>validateUnitOfTime\<close> is imported from \<^verbatim>\<open>./utils\<close>, which is not
  among the sources. The specification describes what it accepts as a duration string
  matching \<^verbatim>\<open><positive integer><unit>\<close> where the unit is one of h, m, s: decimal
  digits whose value is positive, then one unit letter.
\<close>

definition validateUnitOfTime :: "string \<Rightarrow> bool" where
  "validateUnitOfTime v =
     (v \<noteq> []
      \<and> (last v = CHR ''h'' \<or> last v = CHR ''m'' \<or> last v = CHR ''s'')
      \<and> butlast v \<noteq> []
      \<and> list_all isDecimalDigit (butlast v)
      \<and> 0 < digitsValue 10 (butlast v))"

definition executeTimeoutValidator :: "ParsedArgData \<Rightarrow> validate_result" where
  "executeTimeoutValidator argData =
     (if 0 < length (trim (String_of_array argData))
         \<and> validateUnitOfTime (trim (String_of_array argData))
      then IsTrue
      else Message (i18n_translate
             ''xpack.securitySolution.endpointConsoleCommands.invalidExecuteTimeout''
             (''Argument must be a string with a positive integer value followed by a unit of ''
              @ ''time (h for hours, m for minutes, s for seconds). Example: 37m.'')))"

subsection \<open>The commands behind feature flags and the whole list\<close>

definition getFileCommand :: "string \<Rightarrow> string list \<Rightarrow> EndpointPrivileges \<Rightarrow> CommandDefinition" where
  "getFileCommand endpointAgentId endpointCapabilities endpointPrivileges =
     \<lparr>name = ''get-file'',
      about = getCommandAboutInfo
        (i18n_translate ''xpack.securitySolution.endpointConsoleCommands.getFile.about''
           ''Retrieve a file from the host'')
        (doesEndpointSupportCommand endpointCapabilities ''processes''),
      RenderComponent = GetFileActionResult,
      meta = gatedMeta endpointAgentId endpointCapabilities endpointPrivileges,
      exampleUsage =
        Some ''get-file --path \"/full/path/to/file.txt\" --comment \"Possible malware\"'',
      exampleInstruction = Some ENTER_OR_ADD_COMMENT_ARG_INSTRUCTION,
      validate = Some CapabilitiesAndPrivilegesValidator,
      mustHaveArgs = Some True,
      args = Some
        [(''path'',
            \<lparr>required = True, allowMultiples = False, exclusiveOr = None,
             argAbout = i18n_translate
               ''xpack.securitySolution.endpointConsoleCommands.getFile.pathArgAbout''
               ''The full file path to be retrieved'',
             mustHaveValue = None,
             argValidate = Some (\<lambda>argData. emptyArgumentValidator argData)\<rparr>),
         (''comment'', commentArg)],
      helpGroupLabel = HELP_GROUPS_responseActions_label,
      helpGroupPosition = HELP_GROUPS_responseActions_position,
      helpCommandPosition = 6,
      helpDisabled = Some (\<not> doesEndpointSupportCommand endpointCapabilities ''get-file''),
      helpHidden = Some (\<not> getRbacControl ''get-file'' endpointPrivileges)\<rparr>"

definition executeCommand :: "string \<Rightarrow> string list \<Rightarrow> EndpointPrivileges \<Rightarrow> CommandDefinition" where
  "executeCommand endpointAgentId endpointCapabilities endpointPrivileges =
     \<lparr>name = ''execute'',
      about = getCommandAboutInfo
        (i18n_translate ''xpack.securitySolution.endpointConsoleCommands.execute.about''
           ''Execute a command on the host'')
        (doesEndpointSupportCommand endpointCapabilities ''execute''),
      RenderComponent = ExecuteActionResult,
      meta = gatedMeta endpointAgentId endpointCapabilities endpointPrivileges,
      exampleUsage =
        Some ''execute --command \"ls -al\" --timeout 2s --comment \"Get list of all files\"'',
      exampleInstruction = Some ENTER_OR_ADD_COMMENT_ARG_INSTRUCTION,
      validate = Some CapabilitiesAndPrivilegesValidator,
      mustHaveArgs = Some True,
      args = Some
        [(''command'',
            \<lparr>required = True, allowMultiples = False, exclusiveOr = None,
             argAbout = i18n_translate
               ''xpack.securitySolution.endpointConsoleCommands.execute.args.command.about''
               ''The command to execute'',
             mustHaveValue = Some ''non-empty-string'', argValidate = None\<rparr>),
         (''timeout'',
            \<lparr>required = False, allowMultiples = False, exclusiveOr = None,
             argAbout = i18n_translate
               ''xpack.securitySolution.endpointConsoleCommands.execute.args.timeout.about''
               (''The timeout in units of time (h for hours, m for minutes, s for seconds) for ''
                @ ''the endpoint to wait for the script to complete. Example: 37m. If not ''
                @ ''given, it defaults to 4 hours.''),
             mustHaveValue = Some ''non-empty-string'',
             argValidate = Some executeTimeoutValidator\<rparr>),
         (''comment'', commentArg)],
      helpGroupLabel = HELP_GROUPS_responseActions_label,
      helpGroupPosition = HELP_GROUPS_responseActions_position,
      helpCommandPosition = 6,
      helpDisabled = Some (\<not> doesEndpointSupportCommand endpointCapabilities ''execute''),
      helpHidden = Some (\<not> getRbacControl ''execute'' endpointPrivileges)\<rparr>"

definition getEndpointConsoleCommands ::
  "'a ExperimentalFeatures_scheme \<Rightarrow> string \<Rightarrow> string list \<Rightarrow> EndpointPrivileges
     \<Rightarrow> CommandDefinition list" where
  \<comment> \<open>the array literal, then one \<^verbatim>\<open>push\<close> for each enabled feature flag\<close>
  "getEndpointConsoleCommands experimentalFeatures endpointAgentId endpointCapabilities
       endpointPrivileges =
     (let isGetFileEnabled = responseActionGetFileEnabled experimentalFeatures;
          isExecuteEnabled = responseActionExecuteEnabled experimentalFeatures;
          consoleCommands0 =
            [isolateCommand endpointAgentId endpointCapabilities endpointPrivileges,
             releaseCommand endpointAgentId endpointCapabilities endpointPrivileges,
             killProcessCommand endpointAgentId endpointCapabilities endpointPrivileges,
             suspendProcessCommand endpointAgentId endpointCapabilities endpointPrivileges,
             statusCommand endpointAgentId,
             processesCommand endpointAgentId endpointCapabilities endpointPrivileges];
          consoleCommands1 =
            (if isGetFileEnabled
             then consoleCommands0
                    @ [getFileCommand endpointAgentId endpointCapabilities endpointPrivileges]
             else consoleCommands0);
          consoleCommands2 =
            (if isExecuteEnabled
             then consoleCommands1
                    @ [executeCommand endpointAgentId endpointCapabilities endpointPrivileges]
             else consoleCommands1)
      in consoleCommands2)"

subsection \<open>Building the list on a store\<close>

text \<open>
  The inputs of \<^verbatim>\<open>getEndpointConsoleCommands\<close> are references: the capability array and
  the privileges object live in memory shared with the caller, and every \<^verbatim>\<open>meta\<close> the call
  builds stores these two references, not copies. A function is an object too: the
  validators declared at the top of the module are the same objects at every call, whereas
  the arrow function given as \<^verbatim>\<open>validate\<close> of the \<^verbatim>\<open>path\<close> argument of get-file is created
  anew each time the call evaluates the literal. The store below holds the caller's two
  objects, the function objects the calls create and the arrays they return.

  The plain objects of the literal (a descriptor, its \<^verbatim>\<open>meta\<close>, its \<^verbatim>\<open>args\<close>) are kept by
  value inside the array: they are new at each call, and equality of descriptors looks
  through them field by field. A reference that does not point to an object of its declared
  type is outside what the type checker lets through; the model stops with an error there.
\<close>

type_synonym addr = nat

datatype module_function = PidValidator | EmptyArgumentValidator | ExecuteTimeoutValidator

datatype function_ref = ModuleFunction module_function | FunctionAt addr

datatype function_code = GetFilePathValidate
  \<comment> \<open>the code \<^verbatim>\<open>(argData) => { return emptyArgumentValidator(argData); }\<close>\<close>

type_synonym CommandArgDefinitionObj = "function_ref CommandArgDefinition_of"

type_synonym CommandMetaObj = "(addr, addr) CommandMeta_of"

type_synonym CommandDefinitionObj = "(addr, addr, function_ref) CommandDefinition_of"

datatype heap_object =
    StringArray "string list"
  | PrivilegesObject EndpointPrivileges
  | FunctionObject function_code
  | CommandArray "CommandDefinitionObj list"

type_synonym store = "heap_object list"

definition read_store :: "store \<Rightarrow> addr \<Rightarrow> heap_object option" where
  "read_store h a = (if a < length h then Some (h ! a) else None)"




text \<open>
  The descriptors again, as the objects the call builds: each gets the two references it
  stores in \<^verbatim>\<open>meta\<close>, and the values these references hold at the moment the literal is
  evaluated, from which \<^verbatim>\<open>doesEndpointSupportCommand\<close> and \<^verbatim>\<open>getRbacControl\<close> compute the flags.
\<close>

definition commentArgObj :: CommandArgDefinitionObj where
  "commentArgObj =
     \<lparr>required = False, allowMultiples = False, exclusiveOr = None,
      argAbout = COMMENT_ARG_ABOUT, mustHaveValue = None, argValidate = None\<rparr>"

definition gatedMetaObj :: "string \<Rightarrow> addr \<Rightarrow> addr \<Rightarrow> CommandMetaObj" where
  "gatedMetaObj endpointAgentId capabilitiesRef privilegesRef =
     \<lparr>endpointId = endpointAgentId, capabilities = Some capabilitiesRef,
      privileges = Some privilegesRef\<rparr>"

definition isolateCommandObj ::
  "string \<Rightarrow> addr \<Rightarrow> addr \<Rightarrow> string list \<Rightarrow> EndpointPrivileges \<Rightarrow> CommandDefinitionObj" where
  "isolateCommandObj endpointAgentId capabilitiesRef privilegesRef endpointCapabilities
       endpointPrivileges =
     \<lparr>name = ''isolate'',
      about = getCommandAboutInfo
        (i18n_translate ''xpack.securitySolution.endpointConsoleCommands.isolate.about''
           ''Isolate the host'')
        (doesEndpointSupportCommand endpointCapabilities ''isolate''),
      RenderComponent = IsolateActionResult,
      meta = gatedMetaObj endpointAgentId capabilitiesRef privilegesRef,
      exampleUsage = Some ''isolate --comment \"isolate this host\"'',
      exampleInstruction = Some ENTER_OR_ADD_COMMENT_ARG_INSTRUCTION,
      validate = Some CapabilitiesAndPrivilegesValidator,
      mustHaveArgs = None,
      args = Some [(''comment'', commentArgObj)],
      helpGroupLabel = HELP_GROUPS_responseActions_label,
      helpGroupPosition = HELP_GROUPS_responseActions_position,
      helpCommandPosition = 0,
      helpDisabled = Some (doesEndpointSupportCommand endpointCapabilities ''isolate'' = False),
      helpHidden = Some (\<not> getRbacControl ''isolate'' endpointPrivileges)\<rparr>"










subsection \<open>Reading descriptors out of a store\<close>

text \<open>
  What a reader finds behind the references of a descriptor in a given store: the function
  a function reference runs, the array and the object the two references of \<^verbatim>\<open>meta\<close> point
  to. The result is a descriptor of values, \<open>None\<close> if a reference leads nowhere.
\<close>

definition derefFunction ::
  "store \<Rightarrow> function_ref \<Rightarrow> (ParsedArgData \<Rightarrow> validate_result) option" where
  "derefFunction h r =
     (case r of
        ModuleFunction f \<Rightarrow>
          Some (case f of
                  PidValidator \<Rightarrow> pidValidator
                | EmptyArgumentValidator \<Rightarrow> emptyArgumentValidator
                | ExecuteTimeoutValidator \<Rightarrow> executeTimeoutValidator)
      | FunctionAt a \<Rightarrow>
          (case read_store h a of
             Some (FunctionObject GetFilePathValidate) \<Rightarrow>
               Some (\<lambda>argData. emptyArgumentValidator argData)
           | _ \<Rightarrow> None))"

definition derefArg :: "store \<Rightarrow> CommandArgDefinitionObj \<Rightarrow> CommandArgDefinition option" where
  "derefArg h a =
     (case (case argValidate a of
              None \<Rightarrow> Some None
            | Some r \<Rightarrow> map_option Some (derefFunction h r)) of
        None \<Rightarrow> None
      | Some v \<Rightarrow>
          Some \<lparr>required = required a, allowMultiples = allowMultiples a,
                exclusiveOr = exclusiveOr a, argAbout = argAbout a,
                mustHaveValue = mustHaveValue a, argValidate = v\<rparr>)"

fun derefArgs ::
  "store \<Rightarrow> (string \<times> CommandArgDefinitionObj) list
     \<Rightarrow> (string \<times> CommandArgDefinition) list option" where
  "derefArgs h [] = Some []"
| "derefArgs h ((argName, a) # rest) =
     (case derefArg h a of
        None \<Rightarrow> None
      | Some a' \<Rightarrow> map_option ((#) (argName, a')) (derefArgs h rest))"

definition derefMeta :: "store \<Rightarrow> CommandMetaObj \<Rightarrow> CommandMeta option" where
  "derefMeta h m =
     (case (case capabilities m of
              None \<Rightarrow> Some None
            | Some a \<Rightarrow>
                (case read_store h a of
                   Some (StringArray caps) \<Rightarrow> Some (Some caps)
                 | _ \<Rightarrow> None)) of
        None \<Rightarrow> None
      | Some c \<Rightarrow>
          (case (case privileges m of
                   None \<Rightarrow> Some None
                 | Some a \<Rightarrow>
                     (case read_store h a of
                        Some (PrivilegesObject privs) \<Rightarrow> Some (Some privs)
                      | _ \<Rightarrow> None)) of
             None \<Rightarrow> None
           | Some p \<Rightarrow> Some \<lparr>endpointId = endpointId m, capabilities = c, privileges = p\<rparr>))"

definition derefCommand :: "store \<Rightarrow> CommandDefinitionObj \<Rightarrow> CommandDefinition option" where
  "derefCommand h d =
     (case derefMeta h (meta d) of
        None \<Rightarrow> None
      | Some m \<Rightarrow>
          (case (case args d of
                   None \<Rightarrow> Some None
                 | Some defs \<Rightarrow> map_option Some (derefArgs h defs)) of
             None \<Rightarrow> None
           | Some a \<Rightarrow>
               Some \<lparr>name = name d, about = about d, RenderComponent = RenderComponent d,
                     meta = m, exampleUsage = exampleUsage d,
                     exampleInstruction = exampleInstruction d, validate = validate d,
                     mustHaveArgs = mustHaveArgs d, args = a,
                     helpGroupLabel = helpGroupLabel d,
                     helpGroupPosition = helpGroupPosition d,
                     helpCommandPosition = helpCommandPosition d,
                     helpDisabled = helpDisabled d, helpHidden = helpHidden d\<rparr>))"


text \<open>
  \<^verbatim>\<open>capabilitiesAndPrivilegesValidator\<close> on a descriptor of the store: the check reads
  \<^verbatim>\<open>meta.capabilities\<close> and \<^verbatim>\<open>meta.privileges\<close> through their references when it runs, so it
  sees what the caller's objects hold by then.
\<close>

definition capabilitiesAndPrivilegesValidator_store ::
  "translation_texts \<Rightarrow> store \<Rightarrow> CommandDefinitionObj Command_of
     \<Rightarrow> error + validate_result" where
  "capabilitiesAndPrivilegesValidator_store tr h command =
     (case derefCommand h (commandDefinition command) of
        None \<Rightarrow> Inl TypeError
      | Some d \<Rightarrow>
          capabilitiesAndPrivilegesValidator tr
            \<lparr>input = input command, parsedArgs = parsedArgs command, commandDefinition = d\<rparr>)"


section \<open>Validation of the arguments given to a command\<close>

definition argDefinitions :: "CommandDefinition \<Rightarrow> (string \<times> CommandArgDefinition) list" where
  "argDefinitions d = (case args d of None \<Rightarrow> [] | Some defs \<Rightarrow> defs)"

fun firstFailingValidator ::
  "(string \<rightharpoonup> ParsedArgData) \<Rightarrow> (string \<times> CommandArgDefinition) list \<Rightarrow> validate_result" where
  "firstFailingValidator supplied [] = IsTrue"
| "firstFailingValidator supplied ((argName, argDef) # rest) =
     (case supplied argName of
        None \<Rightarrow> firstFailingValidator supplied rest
      | Some argData \<Rightarrow>
          (case argValidate argDef of
             None \<Rightarrow> firstFailingValidator supplied rest
           | Some v \<Rightarrow>
               (case v argData of
                  IsTrue \<Rightarrow> firstFailingValidator supplied rest
                | Message m \<Rightarrow> Message m)))"

text \<open>
  Modelled from the spec: the console's check of the arguments entered for a command (the
  code that reads \<^verbatim>\<open>required\<close>, \<^verbatim>\<open>allowMultiples\<close>, \<^verbatim>\<open>exclusiveOr\<close> and the \<^verbatim>\<open>validate\<close> of
  each argument definition) is not among the sources. The specification: it applies the
  per-argument validators and enforces required/optional, multiplicity and exclusive-or
  groups; required arguments must be present and non-empty after trimming; exactly one of
  the arguments declared \<^verbatim>\<open>exclusiveOr\<close> may be supplied; the first failing validator wins
  and its message is returned. The texts of the three other messages are not specified.
  The argument definitions and their validators are those of the source.
\<close>

definition validateArguments ::
  "CommandDefinition \<Rightarrow> (string \<rightharpoonup> ParsedArgData) \<Rightarrow> validate_result" where
  "validateArguments d supplied =
     (let defs = argDefinitions d;
          missing =
            filter (\<lambda>(argName, argDef). required argDef
                      \<and> (case supplied argName of
                            None \<Rightarrow> True
                          | Some argData \<Rightarrow> emptyArgumentValidator argData \<noteq> IsTrue)) defs;
          repeated =
            filter (\<lambda>(argName, argDef). \<not> allowMultiples argDef
                      \<and> (case supplied argName of
                            None \<Rightarrow> False
                          | Some argData \<Rightarrow> 1 < length argData)) defs;
          exclusive = filter (\<lambda>(argName, argDef). exclusiveOr argDef = Some True) defs;
          exclusiveUsed = filter (\<lambda>(argName, argDef). supplied argName \<noteq> None) exclusive
      in if missing \<noteq> [] then Message ''Missing required arguments''
         else if repeated \<noteq> [] then Message ''Argument can only be used once''
         else if exclusive \<noteq> [] \<and> length exclusiveUsed \<noteq> 1
         then Message ''This command supports one and only one of its exclusive arguments''
         else firstFailingValidator supplied defs)"

section \<open>Example inputs\<close>

definition noPrivileges :: EndpointPrivileges where
  "noPrivileges =
     \<lparr>canIsolateHost = False, canUnIsolateHost = False, canKillProcess = False,
      canSuspendProcess = False, canGetRunningProcesses = False,
      canWriteFileOperations = False, canWriteExecuteOperations = False\<rparr>"

definition allPrivileges :: EndpointPrivileges where
  "allPrivileges =
     \<lparr>canIsolateHost = True, canUnIsolateHost = True, canKillProcess = True,
      canSuspendProcess = True, canGetRunningProcesses = True,
      canWriteFileOperations = True, canWriteExecuteOperations = True\<rparr>"

definition bothFlags :: ExperimentalFeatures where
  "bothFlags = \<lparr>responseActionGetFileEnabled = True, responseActionExecuteEnabled = True\<rparr>"

definition exampleTexts :: translation_texts where
  "exampleTexts =
     \<lparr>UPGRADE_ENDPOINT_FOR_RESPONDER = ''Upgrade the endpoint. '',
      INSUFFICIENT_PRIVILEGES_FOR_COMMAND = ''Insufficient privileges.''\<rparr>"

definition asCommand :: "CommandDefinition \<Rightarrow> Command" where
  "asCommand d = \<lparr>input = name d, parsedArgs = Map.empty, commandDefinition = d\<rparr>"




section \<open>Facts about the map and the command definitions\<close>

lemma map_entries_cases:
  "commandToCapabilitiesPrivilegesMap n = Some e \<Longrightarrow>
     (n, e) \<in> set
       [(''isolate'', \<lparr>capability = ''isolation'', privilege = canIsolateHost\<rparr>),
        (''release'', \<lparr>capability = ''isolation'', privilege = canUnIsolateHost\<rparr>),
        (''kill-process'', \<lparr>capability = ''kill_process'', privilege = canKillProcess\<rparr>),
        (''suspend-process'',
           \<lparr>capability = ''suspend_process'', privilege = canSuspendProcess\<rparr>),
        (''processes'',
           \<lparr>capability = ''running_processes'', privilege = canGetRunningProcesses\<rparr>),
        (''get-file'', \<lparr>capability = ''get_file'', privilege = canWriteFileOperations\<rparr>),
        (''execute'', \<lparr>capability = ''execute'', privilege = canWriteExecuteOperations\<rparr>)]"
  unfolding commandToCapabilitiesPrivilegesMap_def by (rule map_of_SomeD)

lemma capability_nonempty:
  "commandToCapabilitiesPrivilegesMap n = Some e \<Longrightarrow> capability e \<noteq> []"
  by (drule map_entries_cases) auto

lemma map_lookups:
  "commandToCapabilitiesPrivilegesMap ''isolate''
     = Some \<lparr>capability = ''isolation'', privilege = canIsolateHost\<rparr>"
  "commandToCapabilitiesPrivilegesMap ''release''
     = Some \<lparr>capability = ''isolation'', privilege = canUnIsolateHost\<rparr>"
  "commandToCapabilitiesPrivilegesMap ''kill-process''
     = Some \<lparr>capability = ''kill_process'', privilege = canKillProcess\<rparr>"
  "commandToCapabilitiesPrivilegesMap ''suspend-process''
     = Some \<lparr>capability = ''suspend_process'', privilege = canSuspendProcess\<rparr>"
  "commandToCapabilitiesPrivilegesMap ''processes''
     = Some \<lparr>capability = ''running_processes'', privilege = canGetRunningProcesses\<rparr>"
  "commandToCapabilitiesPrivilegesMap ''get-file''
     = Some \<lparr>capability = ''get_file'', privilege = canWriteFileOperations\<rparr>"
  "commandToCapabilitiesPrivilegesMap ''execute''
     = Some \<lparr>capability = ''execute'', privilege = canWriteExecuteOperations\<rparr>"
  "commandToCapabilitiesPrivilegesMap ''status'' = None"
  by (simp_all add: commandToCapabilitiesPrivilegesMap_def)

lemmas command_defs = isolateCommand_def releaseCommand_def killProcessCommand_def
  suspendProcessCommand_def statusCommand_def processesCommand_def getFileCommand_def
  executeCommand_def

lemma command_names:
  "name (isolateCommand a c p) = ''isolate''"
  "name (releaseCommand a c p) = ''release''"
  "name (killProcessCommand a c p) = ''kill-process''"
  "name (suspendProcessCommand a c p) = ''suspend-process''"
  "name (statusCommand a) = ''status''"
  "name (processesCommand a c p) = ''processes''"
  "name (getFileCommand a c p) = ''get-file''"
  "name (executeCommand a c p) = ''execute''"
  by (simp_all add: command_defs)

lemma command_meta:
  "meta (isolateCommand a c p) = gatedMeta a c p"
  "meta (releaseCommand a c p) = gatedMeta a c p"
  "meta (killProcessCommand a c p) = gatedMeta a c p"
  "meta (suspendProcessCommand a c p) = gatedMeta a c p"
  "meta (processesCommand a c p) = gatedMeta a c p"
  "meta (getFileCommand a c p) = gatedMeta a c p"
  "meta (executeCommand a c p) = gatedMeta a c p"
  by (simp_all add: command_defs)

lemma command_helpDisabled:
  "helpDisabled (isolateCommand a c p) = Some (''isolation'' \<notin> set c)"
  "helpDisabled (releaseCommand a c p) = Some (''isolation'' \<notin> set c)"
  "helpDisabled (killProcessCommand a c p) = Some (''kill_process'' \<notin> set c)"
  "helpDisabled (suspendProcessCommand a c p) = Some (''suspend_process'' \<notin> set c)"
  "helpDisabled (statusCommand a) = None"
  "helpDisabled (processesCommand a c p) = Some (''running_processes'' \<notin> set c)"
  "helpDisabled (getFileCommand a c p) = Some (''get_file'' \<notin> set c)"
  "helpDisabled (executeCommand a c p) = Some (''execute'' \<notin> set c)"
  by (simp_all add: command_defs doesEndpointSupportCommand_def map_lookups)

lemma command_helpHidden:
  "helpHidden (isolateCommand a c p) = Some (\<not> canIsolateHost p)"
  "helpHidden (releaseCommand a c p) = Some (\<not> canUnIsolateHost p)"
  "helpHidden (killProcessCommand a c p) = Some (\<not> canKillProcess p)"
  "helpHidden (suspendProcessCommand a c p) = Some (\<not> canSuspendProcess p)"
  "helpHidden (statusCommand a) = None"
  "helpHidden (processesCommand a c p) = Some (\<not> canGetRunningProcesses p)"
  "helpHidden (getFileCommand a c p) = Some (\<not> canWriteFileOperations p)"
  "helpHidden (executeCommand a c p) = Some (\<not> canWriteExecuteOperations p)"
  by (simp_all add: command_defs getRbacControl_def map_lookups)

lemma commands_subset:
  "set (getEndpointConsoleCommands ef a c p)
     \<subseteq> {isolateCommand a c p, releaseCommand a c p, killProcessCommand a c p,
         suspendProcessCommand a c p, statusCommand a, processesCommand a c p,
         getFileCommand a c p, executeCommand a c p}"
  by (auto simp: getEndpointConsoleCommands_def Let_def)

lemma gated_cases:
  assumes "d \<in> set (getEndpointConsoleCommands ef agent caps privs)"
      and "commandToCapabilitiesPrivilegesMap (name d) = Some entry"
  shows "helpDisabled d = Some (capability entry \<notin> set caps)
         \<and> helpHidden d = Some (\<not> privilege entry privs)"
proof -
  from assms(1) commands_subset
  have "d \<in> {isolateCommand agent caps privs, releaseCommand agent caps privs,
          killProcessCommand agent caps privs, suspendProcessCommand agent caps privs,
          statusCommand agent, processesCommand agent caps privs,
          getFileCommand agent caps privs, executeCommand agent caps privs}"
    by blast
  with assms(2) show ?thesis
    by (auto simp: command_names map_lookups command_helpDisabled command_helpHidden)
qed

lemma command_name_list:
  "map name (getEndpointConsoleCommands ef agent caps privs)
     = [''isolate'', ''release'', ''kill-process'', ''suspend-process'', ''status'', ''processes'']
       @ (if responseActionGetFileEnabled ef then [''get-file''] else [])
       @ (if responseActionExecuteEnabled ef then [''execute''] else [])"
  by (simp add: getEndpointConsoleCommands_def Let_def command_names)

lemma getFile_about:
  "about (getFileCommand a c p)
     = CommandAboutInfo ''Retrieve a file from the host'' (''running_processes'' \<in> set c)"
  by (simp add: getFileCommand_def doesEndpointSupportCommand_def getCommandAboutInfo_def
        map_lookups i18n_translate_def)

lemma filter_getFile:
  "responseActionGetFileEnabled ef \<Longrightarrow>
     filter (\<lambda>d. name d = ''get-file'') (getEndpointConsoleCommands ef agent caps privs)
       = [getFileCommand agent caps privs]"
  by (simp add: getEndpointConsoleCommands_def Let_def command_names)

section \<open>The capability and privilege check\<close>

text \<open>
  Claim C1. Take any command whose name is in \<^verbatim>\<open>commandToCapabilitiesPrivilegesMap\<close> and whose
  \<^verbatim>\<open>meta\<close> carries the endpoint capabilities and the privileges. If the capability the map
  requires is among the endpoint capabilities and the required privilege is false, the
  check returns exactly the insufficient-privilege message, with no upgrade message in front
  (that message being a non-empty text, as every translated message is).
\<close>

theorem insufficient_privilege_only:
  assumes "commandToCapabilitiesPrivilegesMap (name (commandDefinition command)) = Some entry"
      and "capabilities (meta (commandDefinition command)) = Some caps"
      and "privileges (meta (commandDefinition command)) = Some privs"
      and "capability entry \<in> set caps"
      and "\<not> privilege entry privs"
      and "INSUFFICIENT_PRIVILEGES_FOR_COMMAND tr \<noteq> []"
  shows "capabilitiesAndPrivilegesValidator tr command
           = Inr (Message (INSUFFICIENT_PRIVILEGES_FOR_COMMAND tr))"
  using assms capability_nonempty[OF assms(1)]
  by (simp add: capabilitiesAndPrivilegesValidator_def getRbacControl_def)

theorem insufficient_privilege_only_witness:
  "commandToCapabilitiesPrivilegesMap
       (name (commandDefinition (asCommand (isolateCommand ''agent-1'' [''isolation''] noPrivileges))))
     = Some \<lparr>capability = ''isolation'', privilege = canIsolateHost\<rparr>
   \<and> ''isolation'' \<in> set [''isolation'']
   \<and> \<not> canIsolateHost noPrivileges
   \<and> INSUFFICIENT_PRIVILEGES_FOR_COMMAND exampleTexts \<noteq> []
   \<and> capabilitiesAndPrivilegesValidator exampleTexts
         (asCommand (isolateCommand ''agent-1'' [''isolation''] noPrivileges))
       = Inr (Message ''Insufficient privileges.'')"
  using insufficient_privilege_only
          [where command = "asCommand (isolateCommand ''agent-1'' [''isolation''] noPrivileges)"
             and entry = "\<lparr>capability = ''isolation'', privilege = canIsolateHost\<rparr>"
             and caps = "[''isolation'']" and privs = noPrivileges and tr = exampleTexts]
  by (simp add: asCommand_def command_names command_meta gatedMeta_def map_lookups
        noPrivileges_def exampleTexts_def)

text \<open>
  Claim C2. For the same commands, if the required capability is not among the endpoint
  capabilities, the check returns an error that starts with the upgrade message whatever the
  privilege is: the upgrade message alone when the privilege is granted, and the upgrade
  message followed by the insufficient-privilege message when it is not.
\<close>

theorem upgrade_required_when_capability_absent:
  assumes "commandToCapabilitiesPrivilegesMap (name (commandDefinition command)) = Some entry"
      and "capabilities (meta (commandDefinition command)) = Some caps"
      and "privileges (meta (commandDefinition command)) = Some privs"
      and "capability entry \<notin> set caps"
      and "UPGRADE_ENDPOINT_FOR_RESPONDER tr \<noteq> []"
  shows "capabilitiesAndPrivilegesValidator tr command
           = Inr (Message (if privilege entry privs
                           then UPGRADE_ENDPOINT_FOR_RESPONDER tr
                           else UPGRADE_ENDPOINT_FOR_RESPONDER tr
                                  @ INSUFFICIENT_PRIVILEGES_FOR_COMMAND tr))"
  using assms capability_nonempty[OF assms(1)]
  by (simp add: capabilitiesAndPrivilegesValidator_def getRbacControl_def)

theorem upgrade_required_when_capability_absent_witness:
  "commandToCapabilitiesPrivilegesMap
       (name (commandDefinition (asCommand (executeCommand ''agent-1'' [''isolation''] noPrivileges))))
     = Some \<lparr>capability = ''execute'', privilege = canWriteExecuteOperations\<rparr>
   \<and> ''execute'' \<notin> set [''isolation'']
   \<and> UPGRADE_ENDPOINT_FOR_RESPONDER exampleTexts \<noteq> []
   \<and> capabilitiesAndPrivilegesValidator exampleTexts
         (asCommand (executeCommand ''agent-1'' [''isolation''] noPrivileges))
       = Inr (Message ''Upgrade the endpoint. Insufficient privileges.'')"
  using upgrade_required_when_capability_absent
          [where command = "asCommand (executeCommand ''agent-1'' [''isolation''] noPrivileges)"
             and entry = "\<lparr>capability = ''execute'', privilege = canWriteExecuteOperations\<rparr>"
             and caps = "[''isolation'']" and privs = noPrivileges and tr = exampleTexts]
  by (simp add: asCommand_def command_names command_meta gatedMeta_def map_lookups
        noPrivileges_def exampleTexts_def)

section \<open>The list built by \<^verbatim>\<open>getEndpointConsoleCommands\<close>\<close>

text \<open>
  Claim C3. In the list built for any capabilities and privileges, a command whose required
  capability the endpoint does not have is disabled (\<^verbatim>\<open>helpDisabled\<close> is true); it is hidden
  (\<^verbatim>\<open>helpHidden\<close> is true) exactly when its privilege is denied as well; and it is not
  removed: the names in the list are the same for every other capabilities and privileges.
\<close>

theorem unsupported_command_disabled_not_removed:
  assumes "d \<in> set (getEndpointConsoleCommands ef agent caps privs)"
      and "commandToCapabilitiesPrivilegesMap (name d) = Some entry"
      and "capability entry \<notin> set caps"
  shows "helpDisabled d = Some True
         \<and> helpHidden d = Some (\<not> privilege entry privs)
         \<and> map name (getEndpointConsoleCommands ef agent caps privs)
             = map name (getEndpointConsoleCommands ef agent caps' privs')"
  using gated_cases[OF assms(1,2)] assms(3)
  by (simp add: command_name_list)

theorem unsupported_command_disabled_not_removed_witness:
  "killProcessCommand ''agent-1'' [''isolation''] allPrivileges
     \<in> set (getEndpointConsoleCommands bothFlags ''agent-1'' [''isolation''] allPrivileges)
   \<and> commandToCapabilitiesPrivilegesMap
         (name (killProcessCommand ''agent-1'' [''isolation''] allPrivileges))
       = Some \<lparr>capability = ''kill_process'', privilege = canKillProcess\<rparr>
   \<and> ''kill_process'' \<notin> set [''isolation'']
   \<and> helpDisabled (killProcessCommand ''agent-1'' [''isolation''] allPrivileges) = Some True
   \<and> helpHidden (killProcessCommand ''agent-1'' [''isolation''] allPrivileges) = Some False
   \<and> map name (getEndpointConsoleCommands bothFlags ''agent-1'' [''isolation''] allPrivileges)
       = map name (getEndpointConsoleCommands bothFlags ''agent-1''
                     [''isolation'', ''kill_process''] noPrivileges)"
  using unsupported_command_disabled_not_removed
          [where d = "killProcessCommand ''agent-1'' [''isolation''] allPrivileges"
             and ef = bothFlags and agent = "''agent-1''" and caps = "[''isolation'']"
             and privs = allPrivileges
             and entry = "\<lparr>capability = ''kill_process'', privilege = canKillProcess\<rparr>"
             and caps' = "[''isolation'', ''kill_process'']" and privs' = noPrivileges]
  by (simp add: getEndpointConsoleCommands_def Let_def command_names map_lookups
        allPrivileges_def)

text \<open>
  Claim C7. Whatever the inputs, the list holds the six commands isolate, release,
  kill-process, suspend-process, status, processes in this order, then get-file exactly when
  \<^verbatim>\<open>responseActionGetFileEnabled\<close> is set, then execute exactly when
  \<^verbatim>\<open>responseActionExecuteEnabled\<close> is set.
\<close>

theorem command_order:
  "map name (getEndpointConsoleCommands ef agent caps privs)
     = [''isolate'', ''release'', ''kill-process'', ''suspend-process'', ''status'', ''processes'']
       @ (if responseActionGetFileEnabled ef then [''get-file''] else [])
       @ (if responseActionExecuteEnabled ef then [''execute''] else [])"
  by (rule command_name_list)

text \<open>
  Claim C9. For all capabilities and privileges the list has exactly one command named
  status, and it has no \<^verbatim>\<open>validate\<close>, no capabilities and no privileges in its \<^verbatim>\<open>meta\<close>, no
  \<^verbatim>\<open>helpDisabled\<close> and no \<^verbatim>\<open>helpHidden\<close>: neither the capabilities nor the privileges
  reach it.
\<close>

theorem status_command_ungated:
  "filter (\<lambda>d. name d = ''status'') (getEndpointConsoleCommands ef agent caps privs)
     = [statusCommand agent]
   \<and> validate (statusCommand agent) = None
   \<and> capabilities (meta (statusCommand agent)) = None
   \<and> privileges (meta (statusCommand agent)) = None
   \<and> helpDisabled (statusCommand agent) = None
   \<and> helpHidden (statusCommand agent) = None"
  by (simp add: getEndpointConsoleCommands_def Let_def command_names statusCommand_def)

text \<open>
  Claim C10. When get-file is enabled, the \<^verbatim>\<open>isSupported\<close> flag given to the about info of
  get-file is whether \<^verbatim>\<open>running_processes\<close> (the capability of \<^verbatim>\<open>processes\<close>) is among the
  endpoint capabilities, while \<^verbatim>\<open>helpDisabled\<close> of the same command is whether \<^verbatim>\<open>get_file\<close>
  is missing. There are capabilities with \<^verbatim>\<open>get_file\<close> and without \<^verbatim>\<open>running_processes\<close>
  for which the two disagree: the command is not disabled, yet its about info is told that
  it is unsupported.
\<close>

theorem getFile_isSupported_reads_processes:
  assumes "responseActionGetFileEnabled ef"
  shows "(\<exists>d t. filter (\<lambda>d. name d = ''get-file'')
                    (getEndpointConsoleCommands ef agent caps privs) = [d]
            \<and> about d = CommandAboutInfo t (''running_processes'' \<in> set caps)
            \<and> helpDisabled d = Some (''get_file'' \<notin> set caps))
       \<and> (\<exists>caps' d' t'. ''get_file'' \<in> set caps' \<and> ''running_processes'' \<notin> set caps'
            \<and> filter (\<lambda>d. name d = ''get-file'')
                 (getEndpointConsoleCommands ef agent caps' privs) = [d']
            \<and> about d' = CommandAboutInfo t' False
            \<and> helpDisabled d' = Some False)"
proof
  show "\<exists>d t. filter (\<lambda>d. name d = ''get-file'')
                    (getEndpointConsoleCommands ef agent caps privs) = [d]
            \<and> about d = CommandAboutInfo t (''running_processes'' \<in> set caps)
            \<and> helpDisabled d = Some (''get_file'' \<notin> set caps)"
    using filter_getFile[OF assms] getFile_about command_helpDisabled(7) by blast
next
  have "filter (\<lambda>d. name d = ''get-file'')
          (getEndpointConsoleCommands ef agent [''get_file''] privs)
          = [getFileCommand agent [''get_file''] privs]"
    by (rule filter_getFile[OF assms])
  moreover have "about (getFileCommand agent [''get_file''] privs)
                   = CommandAboutInfo ''Retrieve a file from the host'' False"
    by (simp add: getFile_about)
  moreover have "helpDisabled (getFileCommand agent [''get_file''] privs) = Some False"
    by (simp add: command_helpDisabled)
  moreover have "''get_file'' \<in> set [''get_file''] \<and> ''running_processes'' \<notin> set [''get_file'']"
    by simp
  ultimately show "\<exists>caps' d' t'. ''get_file'' \<in> set caps' \<and> ''running_processes'' \<notin> set caps'
            \<and> filter (\<lambda>d. name d = ''get-file'')
                 (getEndpointConsoleCommands ef agent caps' privs) = [d']
            \<and> about d' = CommandAboutInfo t' False
            \<and> helpDisabled d' = Some False"
    by blast
qed

theorem getFile_isSupported_reads_processes_witness:
  "responseActionGetFileEnabled bothFlags
   \<and> filter (\<lambda>d. name d = ''get-file'')
        (getEndpointConsoleCommands bothFlags ''agent-1'' [''get_file''] allPrivileges)
       = [getFileCommand ''agent-1'' [''get_file''] allPrivileges]
   \<and> isSupported (about (getFileCommand ''agent-1'' [''get_file''] allPrivileges)) = False
   \<and> helpDisabled (getFileCommand ''agent-1'' [''get_file''] allPrivileges) = Some False"
proof -
  have flag: "responseActionGetFileEnabled bothFlags"
    by (simp add: bothFlags_def)
  from getFile_isSupported_reads_processes
         [OF flag, where agent = "''agent-1''" and caps = "[''get_file'']"
            and privs = allPrivileges]
  obtain d t where
    "filter (\<lambda>d. name d = ''get-file'')
       (getEndpointConsoleCommands bothFlags ''agent-1'' [''get_file''] allPrivileges) = [d]"
    "about d = CommandAboutInfo t (''running_processes'' \<in> set [''get_file''])"
    "helpDisabled d = Some (''get_file'' \<notin> set [''get_file''])"
    by blast
  moreover have "filter (\<lambda>d. name d = ''get-file'')
       (getEndpointConsoleCommands bothFlags ''agent-1'' [''get_file''] allPrivileges)
       = [getFileCommand ''agent-1'' [''get_file''] allPrivileges]"
    by (rule filter_getFile[OF flag])
  ultimately show ?thesis
    using flag by auto
qed

subsection \<open>Two calls on a store\<close>



lemma read_store_lt: "read_store h a = Some x \<Longrightarrow> a < length h"
  by (simp add: read_store_def split: if_splits)




lemma derefMeta_gated:
  "read_store h capsRef = Some (StringArray caps) \<Longrightarrow>
   read_store h privsRef = Some (PrivilegesObject privs) \<Longrightarrow>
   derefMeta h (gatedMetaObj agent capsRef privsRef) = Some (gatedMeta agent caps privs)"
  by (simp add: derefMeta_def gatedMetaObj_def gatedMeta_def)

lemma derefArg_comment: "derefArg h commentArgObj = Some commentArg"
  by (simp add: derefArg_def commentArgObj_def commentArg_def)













text \<open>
  The references of \<^verbatim>\<open>meta\<close> are those of the caller: when the caller empties its capability
  array after the list was built, the check of a descriptor sees the empty array and asks
  for an upgrade, while \<^verbatim>\<open>helpDisabled\<close>, computed when the list was built, stays false.
\<close>

lemma derefCommand_isolate_later:
  assumes "read_store h capsRef = Some (StringArray caps')"
      and "read_store h privsRef = Some (PrivilegesObject privs')"
  shows "derefCommand h (isolateCommandObj agent capsRef privsRef caps privs)
           = Some ((isolateCommand agent caps privs)\<lparr>meta := gatedMeta agent caps' privs'\<rparr>)"
  by (simp add: derefCommand_def isolateCommandObj_def isolateCommand_def
        derefMeta_gated[OF assms] derefArg_def commentArgObj_def commentArg_def)

lemma check_reads_through_the_references:
  assumes "read_store h capsRef = Some (StringArray caps)"
      and "read_store h privsRef = Some (PrivilegesObject privs)"
      and "''isolation'' \<in> set caps" and "canIsolateHost privs"
      and "UPGRADE_ENDPOINT_FOR_RESPONDER tr \<noteq> []"
  shows "capabilitiesAndPrivilegesValidator_store tr h
           \<lparr>input = i, parsedArgs = a,
            commandDefinition = isolateCommandObj agent capsRef privsRef caps privs\<rparr>
         = Inr IsTrue"
    and "capabilitiesAndPrivilegesValidator_store tr (h[capsRef := StringArray []])
           \<lparr>input = i, parsedArgs = a,
            commandDefinition = isolateCommandObj agent capsRef privsRef caps privs\<rparr>
         = Inr (Message (UPGRADE_ENDPOINT_FOR_RESPONDER tr))"
    and "helpDisabled (isolateCommandObj agent capsRef privsRef caps privs) = Some False"
proof -
  have lt: "capsRef < length h" "privsRef < length h"
    using assms(1,2) by (auto dest: read_store_lt)
  have ne: "capsRef \<noteq> privsRef" using assms(1,2) by auto
  have r: "read_store (h[capsRef := StringArray []]) capsRef = Some (StringArray [])"
          "read_store (h[capsRef := StringArray []]) privsRef = Some (PrivilegesObject privs)"
    using assms(2) lt ne by (simp_all add: read_store_def)
  show "capabilitiesAndPrivilegesValidator_store tr h
           \<lparr>input = i, parsedArgs = a,
            commandDefinition = isolateCommandObj agent capsRef privsRef caps privs\<rparr>
         = Inr IsTrue"
    using assms(3,4)
    by (simp add: capabilitiesAndPrivilegesValidator_store_def
          derefCommand_isolate_later[OF assms(1,2)] capabilitiesAndPrivilegesValidator_def
          isolateCommand_def gatedMeta_def map_lookups getRbacControl_def)
  show "capabilitiesAndPrivilegesValidator_store tr (h[capsRef := StringArray []])
           \<lparr>input = i, parsedArgs = a,
            commandDefinition = isolateCommandObj agent capsRef privsRef caps privs\<rparr>
         = Inr (Message (UPGRADE_ENDPOINT_FOR_RESPONDER tr))"
    using assms(4,5)
    by (simp add: capabilitiesAndPrivilegesValidator_store_def
          derefCommand_isolate_later[OF r] capabilitiesAndPrivilegesValidator_def
          isolateCommand_def gatedMeta_def map_lookups getRbacControl_def)
  show "helpDisabled (isolateCommandObj agent capsRef privsRef caps privs) = Some False"
    using assms(3)
    by (simp add: isolateCommandObj_def doesEndpointSupportCommand_def map_lookups)
qed









section \<open>The argument validators\<close>

text \<open>
  Integers of magnitude below \<open>2 ^ 53\<close> are doubles, so the conversion keeps them; a string of
  decimal digits converts to the integer it denotes. On such strings \<^verbatim>\<open>pidValidator\<close> accepts
  exactly the positive values (as long as they stay below \<open>2 ^ 53\<close>).
\<close>

lemma bitlength_nonneg: "0 \<le> bitlength n"
  by (induction n rule: bitlength.induct) (subst bitlength.simps, simp)

lemma bitlength_pos: "0 < n \<Longrightarrow> 1 \<le> bitlength n"
  using bitlength_nonneg[of "n div 2"] by (subst bitlength.simps) simp

lemma bitlength_bounds:
  "0 < n \<Longrightarrow> 2 ^ nat (bitlength n - 1) \<le> n \<and> n < 2 ^ nat (bitlength n)"
proof (induction n rule: bitlength.induct)
  case (1 n)
  show ?case
  proof (cases "n = 1")
    case True
    then show ?thesis by (simp add: bitlength.simps)
  next
    case False
    with "1.prems" have half: "0 < n div 2" by simp
    with "1.IH" "1.prems" have ih:
      "2 ^ nat (bitlength (n div 2) - 1) \<le> n div 2" "n div 2 < 2 ^ nat (bitlength (n div 2))"
      by simp_all
    have bl: "bitlength n = 1 + bitlength (n div 2)"
      using "1.prems" by (subst bitlength.simps) simp
    have pos: "1 \<le> bitlength (n div 2)" by (rule bitlength_pos[OF half])
    then have e1: "nat (bitlength n - 1) = Suc (nat (bitlength (n div 2) - 1))"
      and e2: "nat (bitlength n) = Suc (nat (bitlength (n div 2)))"
      using bl by simp_all
    show ?thesis
      unfolding e1 e2 using ih by simp linarith
  qed
qed

lemma floor_log2_of_int:
  assumes "0 < n"
  shows "floor_log2 (of_int n) = bitlength n - 1"
proof -
  have q: "quotient_of (of_int n) = (n, 1)" by simp
  have b1: "bitlength 1 = 1" by (simp add: bitlength.simps)
  have "(2::int) ^ nat (bitlength n - 1) \<le> n" using bitlength_bounds[OF assms] by simp
  then have "(of_int ((2::int) ^ nat (bitlength n - 1)) :: rat) \<le> of_int n"
    by (simp only: of_int_le_iff)
  then have "pow2 (bitlength n - 1) \<le> of_int n"
    using bitlength_pos[OF assms] by (simp add: pow2_def)
  then show ?thesis
    by (simp add: floor_log2_def q b1)
qed

lemma round_half_even_of_int: "round_half_even (of_int m) = m"
  by (simp add: round_half_even_def)

lemma toDouble_pos_int:
  assumes "0 < n" "n < 2 ^ 53"
  shows "toDouble (of_int n) = Finite (of_int n)"
proof -
  define k where "k = bitlength n - 1"
  have k0: "0 \<le> k" using bitlength_pos[OF assms(1)] by (simp add: k_def)
  have "(2::int) ^ nat k \<le> n" using bitlength_bounds[OF assms(1)] by (simp add: k_def)
  with assms(2) have "(2::int) ^ nat k < 2 ^ 53" by linarith
  then have "nat k < 53" by (rule power_less_imp_less_exp[of "2::int", rotated]) simp
  then have k52: "k \<le> 52" by simp
  define j where "j = nat (52 - k)"
  have fl: "floor_log2 (of_int n) = k"
    using floor_log2_of_int[OF assms(1)] by (simp add: k_def)
  have e: "max k (- 1022) = k" using k0 by simp
  have q: "pow2 (k - 52) = 1 / 2 ^ j"
  proof (cases "k = 52")
    case True
    then show ?thesis by (simp add: pow2_def j_def)
  next
    case False
    with k52 have "k < 52" by simp
    then have "nat (- (k - 52)) = j" by (simp add: j_def)
    with \<open>k < 52\<close> show ?thesis by (simp add: pow2_def)
  qed
  have v: "of_int (round_half_even (of_int n / (1 / 2 ^ j))) * (1 / 2 ^ j) = (of_int n :: rat)"
  proof -
    have "(of_int n :: rat) / (1 / 2 ^ j) = of_int (n * 2 ^ j)" by simp
    then have "round_half_even (of_int n / (1 / 2 ^ j)) = n * 2 ^ j"
      by (simp only: round_half_even_of_int)
    then show ?thesis by simp
  qed
  have bound: "\<not> (2::rat) ^ 1024 \<le> of_int n"
  proof -
    have "(of_int n :: rat) < of_int (2 ^ 53)" using assms(2) by (simp only: of_int_less_iff)
    then show ?thesis by simp
  qed
  have nz: "(of_int n :: rat) \<noteq> 0" "\<bar>of_int n :: rat\<bar> = of_int n" "\<not> (of_int n :: rat) < 0"
    using assms(1) by simp_all
  show ?thesis
    unfolding toDouble_def Let_def nz(2) fl e q v using nz(1,3) bound by (simp only: if_False)
qed

lemma toDouble_int:
  assumes "\<bar>n\<bar> < 2 ^ 53"
  shows "toDouble (of_int n) = Finite (of_int n)"
proof -
  consider "n = 0" | "0 < n" | "n < 0" by linarith
  then show ?thesis
  proof cases
    case 1
    then show ?thesis by (simp add: toDouble_def)
  next
    case 2
    with assms show ?thesis by (simp add: toDouble_pos_int)
  next
    case 3
    then have p: "0 < - n" "- n < 2 ^ 53" using assms by simp_all
    have "toDouble (of_int (- n)) = Finite (of_int (- n))" by (rule toDouble_pos_int[OF p])
    then show ?thesis using 3
      by (simp add: toDouble_def Let_def split: if_splits)
  qed
qed

lemma digit_not_space: "isDecimalDigit c \<Longrightarrow> \<not> isStrWhiteSpaceChar c"
  by (auto simp: isDecimalDigit_def isStrWhiteSpaceChar_def)

lemma trim_digits:
  assumes "list_all isDecimalDigit s"
  shows "trim s = s"
proof (cases s rule: rev_cases)
  case Nil
  then show ?thesis by (simp add: trim_def)
next
  case (snoc ys y)
  with assms have l: "\<not> isStrWhiteSpaceChar y" by (simp add: digit_not_space)
  show ?thesis
  proof (cases s)
    case Nil
    with snoc show ?thesis by simp
  next
    case (Cons z zs)
    with assms have f: "\<not> isStrWhiteSpaceChar z" by (simp add: digit_not_space)
    have "dropWhile isStrWhiteSpaceChar s = s" using Cons f by simp
    moreover have "dropWhile isStrWhiteSpaceChar (rev s) = rev s" using snoc l by simp
    ultimately show ?thesis by (simp add: trim_def)
  qed
qed

lemma digit_chars:
  "isDecimalDigit c \<Longrightarrow>
     c \<noteq> CHR ''x'' \<and> c \<noteq> CHR ''X'' \<and> c \<noteq> CHR ''o'' \<and> c \<noteq> CHR ''O'' \<and> c \<noteq> CHR ''b''
     \<and> c \<noteq> CHR ''B'' \<and> c \<noteq> CHR ''-'' \<and> c \<noteq> CHR ''+'' \<and> c \<noteq> CHR ''I''"
  by (auto simp: isDecimalDigit_def)

lemma StringToNumber_digits:
  assumes "s \<noteq> []" "list_all isDecimalDigit s"
  shows "StringToNumber s = toDouble (of_int (digitsValue 10 s))"
proof -
  obtain c r where s: "s = c # r" using assms(1) by (cases s) auto
  with assms(2) have c: "isDecimalDigit c" and r: "list_all isDecimalDigit r" by simp_all
  have nd: "parseNonDecimalIntegerLiteral s = None"
  proof (cases r)
    case Nil
    with s show ?thesis by (simp add: parseNonDecimalIntegerLiteral_def)
  next
    case (Cons p ds)
    with r have "isDecimalDigit p" by simp
    from digit_chars[OF this] s Cons show ?thesis
      by (simp add: parseNonDecimalIntegerLiteral_def)
  qed
  have tw: "takeWhile isDecimalDigit s = s" "dropWhile isDecimalDigit s = []"
    using assms(2) by (simp_all add: list_all_iff)
  have inf: "s \<noteq> ''Infinity''" using s digit_chars[OF c] by auto
  have dec: "parseStrUnsignedDecimalLiteral s = Some (of_int (digitsValue 10 s))"
    using assms(1)
    by (simp add: parseStrUnsignedDecimalLiteral_def tw parseExponentPart_def pow10_def
          digitsValue_def)
  have sign: "(case s of
                 [] \<Rightarrow> (False, s)
               | c # r \<Rightarrow>
                   if c = CHR ''-'' then (True, r)
                   else if c = CHR ''+'' then (False, r)
                   else (False, s)) = (False, s)"
    using s digit_chars[OF c] by simp
  show ?thesis
    unfolding StringToNumber_def Let_def trim_digits[OF assms(2)] nd sign
    using assms(1) inf by (simp add: dec)
qed

lemma foldl_digits_nonneg:
  "0 \<le> acc \<Longrightarrow>
     0 \<le> foldl (\<lambda>acc c. 10 * acc + (case digitValue c of None \<Rightarrow> 0 | Some v \<Rightarrow> v)) acc ds"
proof (induction ds arbitrary: acc)
  case Nil
  then show ?case by simp
next
  case (Cons c ds)
  have "0 \<le> (case digitValue c of None \<Rightarrow> (0::int) | Some v \<Rightarrow> v)"
    by (auto simp: digitValue_def Let_def)
  with Cons.prems have "0 \<le> 10 * acc + (case digitValue c of None \<Rightarrow> 0 | Some v \<Rightarrow> v)"
    by linarith
  from Cons.IH[OF this] show ?case by simp
qed

lemma digitsValue_nonneg: "0 \<le> digitsValue 10 ds"
  unfolding digitsValue_def by (rule foldl_digits_nonneg) simp

lemma pidValidator_decimal:
  assumes "s \<noteq> []" "list_all isDecimalDigit s" "digitsValue 10 s < 2 ^ 53"
  shows "pidValidator [StrVal s] =
           (if 0 < digitsValue 10 s then IsTrue
            else Message
                   ''Argument must be a positive number representing the PID of a process'')"
proof -
  have e: "emptyArgumentValidator [StrVal s] = IsTrue"
    using assms(1) by (simp add: emptyArgumentValidator_def trim_digits[OF assms(2)])
  have "\<bar>digitsValue 10 s\<bar> < 2 ^ 53"
    using assms(3) digitsValue_nonneg[of s] by simp
  then have n: "Number_of_array [StrVal s] = Finite (of_int (digitsValue 10 s))"
    by (simp add: Number_of_array_def String_of_array_def String_of_value_def
          StringToNumber_digits[OF assms(1,2)] toDouble_int)
  have safe: "Number_isSafeInteger (Finite (of_int (digitsValue 10 s)))"
  proof -
    have "\<bar>digitsValue 10 s\<bar> \<le> 2 ^ 53 - 1"
      using assms(3) digitsValue_nonneg[of s] by simp
    then have "\<bar>of_int (digitsValue 10 s) :: rat\<bar> \<le> of_int (2 ^ 53 - 1)"
      by (simp only: of_int_abs[symmetric] of_int_le_iff)
    then show ?thesis by (simp add: Number_isSafeInteger_def)
  qed
  show ?thesis
    by (simp add: pidValidator_def e n safe gt_zero_def i18n_translate_def)
qed

lemma toDouble_evals:
  "toDouble 123 = Finite 123" "toDouble (- 5) = Finite (- 5)" "toDouble 0 = Finite 0"
  using toDouble_int[of 123] toDouble_int[of "- 5"] toDouble_int[of 0] by simp_all

lemmas parse_defs = StringToNumber_def trim_def isStrWhiteSpaceChar_def
  parseNonDecimalIntegerLiteral_def parseStrUnsignedDecimalLiteral_def parseExponentPart_def
  isDecimalDigit_def digitsValue_def digitValue_def pow10_def Let_def

lemma StringToNumber_evals:
  "StringToNumber ''123'' = Finite 123"
  "StringToNumber ''-5'' = Finite (- 5)"
  "StringToNumber ''0'' = Finite 0"
  "StringToNumber ''abc'' = NaN"
  by (simp_all add: parse_defs toDouble_evals)

lemmas validator_defs = pidValidator_def emptyArgumentValidator_def
  Number_of_array_def String_of_array_def String_of_value_def i18n_translate_def
  Number_isSafeInteger_def gt_zero_def trim_def isStrWhiteSpaceChar_def Let_def

lemma pidValidator_123: "pidValidator [StrVal ''123''] = IsTrue"
  by (simp add: validator_defs StringToNumber_evals)

lemma emptyArgumentValidator_abc: "emptyArgumentValidator [StrVal ''abc''] = IsTrue"
  by (simp add: validator_defs)

text \<open>
  Claim C5. \<^verbatim>\<open>pidValidator\<close> returns true on the value \<^verbatim>\<open>"123"\<close> and a message on each of
  \<^verbatim>\<open>"0"\<close>, \<^verbatim>\<open>"-5"\<close>, \<^verbatim>\<open>""\<close> and \<^verbatim>\<open>"abc"\<close>: the message of the empty argument for the empty
  string, the message of the invalid PID for the other three.
\<close>

theorem pidValidator_examples:
  "pidValidator [StrVal ''123''] = IsTrue
   \<and> pidValidator [StrVal ''0'']
       = Message ''Argument must be a positive number representing the PID of a process''
   \<and> pidValidator [StrVal ''-5'']
       = Message ''Argument must be a positive number representing the PID of a process''
   \<and> pidValidator [StrVal ''''] = Message ''Argument cannot be empty''
   \<and> pidValidator [StrVal ''abc'']
       = Message ''Argument must be a positive number representing the PID of a process''"
  by (simp add: validator_defs StringToNumber_evals)

lemma validateUnitOfTime_iff:
  "validateUnitOfTime v \<longleftrightarrow>
     (\<exists>ds u. v = ds @ [u] \<and> ds \<noteq> [] \<and> list_all isDecimalDigit ds \<and> 0 < digitsValue 10 ds
        \<and> (u = CHR ''h'' \<or> u = CHR ''m'' \<or> u = CHR ''s''))"
  by (cases v rule: rev_cases) (auto simp: validateUnitOfTime_def)

lemma executeTimeoutValidator_cases:
  "executeTimeoutValidator argData =
     (if validateUnitOfTime (trim (String_of_array argData)) then IsTrue
      else Message
             (''Argument must be a string with a positive integer value followed by a unit of ''
              @ ''time (h for hours, m for minutes, s for seconds). Example: 37m.''))"
  by (auto simp: executeTimeoutValidator_def validateUnitOfTime_def i18n_translate_def)

lemmas unit_defs = validateUnitOfTime_def String_of_array_def String_of_value_def trim_def
  isStrWhiteSpaceChar_def isDecimalDigit_def digitsValue_def digitValue_def Let_def

text \<open>
  Claim C6, as stated, says that \<^verbatim>\<open>executeTimeoutValidator\<close> accepts exactly the strings made
  of a positive integer and a unit. It accepts more: the value \<^verbatim>\<open>" 37m"\<close>, with a space in
  front, is accepted although it is not of that form, because the validator trims the string
  before it looks at it.
\<close>

theorem executeTimeoutValidator_accepts_padded:
  "executeTimeoutValidator [StrVal '' 37m''] = IsTrue \<and> \<not> validateUnitOfTime '' 37m''"
  by (simp add: executeTimeoutValidator_cases unit_defs)

text \<open>
  Claim C6, amended. \<^verbatim>\<open>executeTimeoutValidator\<close> returns true on \<^verbatim>\<open>"37m"\<close>, \<^verbatim>\<open>"2s"\<close> and
  \<^verbatim>\<open>"4h"\<close> and its message on \<^verbatim>\<open>"37"\<close>, \<^verbatim>\<open>"m37"\<close> and \<^verbatim>\<open>""\<close>; it accepts exactly the
  argument values whose string, once the white space at both ends is trimmed, is a positive
  integer followed by one of the units h, m, s.
\<close>

theorem executeTimeoutValidator_after_trim:
  "executeTimeoutValidator [StrVal ''37m''] = IsTrue
   \<and> executeTimeoutValidator [StrVal ''2s''] = IsTrue
   \<and> executeTimeoutValidator [StrVal ''4h''] = IsTrue
   \<and> executeTimeoutValidator [StrVal ''37'']
       = Message
           (''Argument must be a string with a positive integer value followed by a unit of ''
            @ ''time (h for hours, m for minutes, s for seconds). Example: 37m.'')
   \<and> executeTimeoutValidator [StrVal ''m37'']
       = Message
           (''Argument must be a string with a positive integer value followed by a unit of ''
            @ ''time (h for hours, m for minutes, s for seconds). Example: 37m.'')
   \<and> executeTimeoutValidator [StrVal '''']
       = Message
           (''Argument must be a string with a positive integer value followed by a unit of ''
            @ ''time (h for hours, m for minutes, s for seconds). Example: 37m.'')
   \<and> (executeTimeoutValidator argData = IsTrue \<longleftrightarrow>
        (\<exists>ds u. trim (String_of_array argData) = ds @ [u] \<and> ds \<noteq> []
           \<and> list_all isDecimalDigit ds \<and> 0 < digitsValue 10 ds
           \<and> (u = CHR ''h'' \<or> u = CHR ''m'' \<or> u = CHR ''s'')))"
proof -
  have "validateUnitOfTime (trim (String_of_array [StrVal ''37m'']))"
       "validateUnitOfTime (trim (String_of_array [StrVal ''2s'']))"
       "validateUnitOfTime (trim (String_of_array [StrVal ''4h'']))"
       "\<not> validateUnitOfTime (trim (String_of_array [StrVal ''37'']))"
       "\<not> validateUnitOfTime (trim (String_of_array [StrVal ''m37'']))"
       "\<not> validateUnitOfTime (trim (String_of_array [StrVal '''']))"
    by (simp_all add: unit_defs)
  moreover have "executeTimeoutValidator argData = IsTrue \<longleftrightarrow>
        (\<exists>ds u. trim (String_of_array argData) = ds @ [u] \<and> ds \<noteq> []
           \<and> list_all isDecimalDigit ds \<and> 0 < digitsValue 10 ds
           \<and> (u = CHR ''h'' \<or> u = CHR ''m'' \<or> u = CHR ''s''))"
    by (simp add: executeTimeoutValidator_cases validateUnitOfTime_iff)
  ultimately show ?thesis
    by (simp only: executeTimeoutValidator_cases if_True if_False simp_thms)
qed

section \<open>The arguments of kill-process\<close>

lemma kill_arg_defs:
  "argDefinitions (killProcessCommand a c p) =
        [(''comment'', commentArg),
         (''pid'',
            \<lparr>required = False, allowMultiples = False, exclusiveOr = Some True,
             argAbout = i18n_translate
               ''xpack.securitySolution.endpointConsoleCommands.pid.arg.comment''
               ''A PID representing the process to kill'',
             mustHaveValue = None, argValidate = Some pidValidator\<rparr>),
         (''entityId'',
            \<lparr>required = False, allowMultiples = False, exclusiveOr = Some True,
             argAbout = i18n_translate
               ''xpack.securitySolution.endpointConsoleCommands.entityId.arg.comment''
               ''An entity id representing the process to kill'',
             mustHaveValue = None, argValidate = Some emptyArgumentValidator\<rparr>)]"
  by (simp add: argDefinitions_def killProcessCommand_def)

text \<open>
  Claim C4. For kill-process, the validation of the arguments rejects every input that
  supplies both \<^verbatim>\<open>pid\<close> and \<^verbatim>\<open>entityId\<close>. It accepts an input that supplies \<^verbatim>\<open>pid\<close> alone with
  one value that \<^verbatim>\<open>pidValidator\<close> accepts, and an input that supplies \<^verbatim>\<open>entityId\<close> alone with
  one value that \<^verbatim>\<open>emptyArgumentValidator\<close> accepts (in both cases with or without one
  comment).
\<close>

theorem kill_process_exclusive_or:
  "(supplied ''pid'' \<noteq> None \<and> supplied ''entityId'' \<noteq> None
      \<longrightarrow> validateArguments (killProcessCommand a c p) supplied \<noteq> IsTrue)
   \<and> (supplied ''pid'' = Some [x] \<and> pidValidator [x] = IsTrue
        \<and> supplied ''entityId'' = None
        \<and> (supplied ''comment'' = None \<or> supplied ''comment'' = Some [y])
      \<longrightarrow> validateArguments (killProcessCommand a c p) supplied = IsTrue)
   \<and> (supplied ''entityId'' = Some [x] \<and> emptyArgumentValidator [x] = IsTrue
        \<and> supplied ''pid'' = None
        \<and> (supplied ''comment'' = None \<or> supplied ''comment'' = Some [y])
      \<longrightarrow> validateArguments (killProcessCommand a c p) supplied = IsTrue)"
  by (auto simp: validateArguments_def kill_arg_defs commentArg_def Let_def)

theorem kill_process_exclusive_or_witness:
  "validateArguments (killProcessCommand ''agent-1'' [''kill_process''] allPrivileges)
       [''pid'' \<mapsto> [StrVal ''123''], ''entityId'' \<mapsto> [StrVal ''abc'']] \<noteq> IsTrue
   \<and> validateArguments (killProcessCommand ''agent-1'' [''kill_process''] allPrivileges)
       [''pid'' \<mapsto> [StrVal ''123'']] = IsTrue
   \<and> validateArguments (killProcessCommand ''agent-1'' [''kill_process''] allPrivileges)
       [''entityId'' \<mapsto> [StrVal ''abc''], ''comment'' \<mapsto> [StrVal ''stop it'']] = IsTrue"
  using kill_process_exclusive_or
          [where supplied = "[''pid'' \<mapsto> [StrVal ''123''], ''entityId'' \<mapsto> [StrVal ''abc'']]"
             and a = "''agent-1''" and c = "[''kill_process'']" and p = allPrivileges]
        kill_process_exclusive_or
          [where supplied = "[''pid'' \<mapsto> [StrVal ''123'']]" and x = "StrVal ''123''"
             and a = "''agent-1''" and c = "[''kill_process'']" and p = allPrivileges]
        kill_process_exclusive_or
          [where supplied = "[''entityId'' \<mapsto> [StrVal ''abc''], ''comment'' \<mapsto> [StrVal ''stop it'']]"
             and x = "StrVal ''abc''" and y = "StrVal ''stop it''"
             and a = "''agent-1''" and c = "[''kill_process'']" and p = allPrivileges]
        pidValidator_123 emptyArgumentValidator_abc
  by simp

end
